theory Spec2Isabelle
  imports Main
begin

section \<open>Python values\<close>

text \<open>
  The values that reach the load functions of
  \<^verbatim>\<open>azure/ai/ml/entities/_load_functions.py\<close>: \<open>None\<close>, booleans, integers, strings,
  lists, dictionaries (association lists with string keys), \<open>os.PathLike\<close> objects and
  other objects. An object is given by the name of its class and by its \<open>name\<close>
  attribute, when it has one (an open file has, an \<open>io.StringIO\<close> has not).
  Floats are left out.
\<close>

datatype pyval =
    PNone
  | PBool bool
  | PInt int
  | PStr string
  | PList "pyval list"
  | PDict "(string \<times> pyval) list"
  | PPath string
  | PObj string "pyval option"

text \<open>
  Python's truth value testing, as used by \<^verbatim>\<open>if source:\<close> and
  \<^verbatim>\<open>client and name and version\<close>. Paths and objects are instances of classes that
  define neither \<^verbatim>\<open>__bool__\<close> nor \<^verbatim>\<open>__len__\<close>, so they are true.
\<close>

fun truthy :: "pyval \<Rightarrow> bool" where
  "truthy PNone = False"
| "truthy (PBool b) = b"
| "truthy (PInt i) = (i \<noteq> 0)"
| "truthy (PStr s) = (s \<noteq> [])"
| "truthy (PList xs) = (xs \<noteq> [])"
| "truthy (PDict kvs) = (kvs \<noteq> [])"
| "truthy (PPath p) = True"
| "truthy (PObj c n) = True"

text \<open>\<^verbatim>\<open>isinstance(source, (str, PathLike))\<close>\<close>

fun isinstance_str_or_PathLike :: "pyval \<Rightarrow> bool" where
  "isinstance_str_or_PathLike (PStr s) = True"
| "isinstance_str_or_PathLike (PPath p) = True"
| "isinstance_str_or_PathLike v = False"

text \<open>\<^verbatim>\<open>isinstance(yaml_dict, dict)\<close>\<close>

fun isinstance_dict :: "pyval \<Rightarrow> bool" where
  "isinstance_dict (PDict kvs) = True"
| "isinstance_dict v = False"

text \<open>
  \<^verbatim>\<open>source.name\<close>: the attribute's value, or \<open>None\<close> of the option type where Python
  raises \<^verbatim>\<open>AttributeError\<close>. It is only read of a source that is neither a string nor a
  \<open>PathLike\<close>.
\<close>

fun getattr_name :: "pyval \<Rightarrow> pyval option" where
  "getattr_name (PObj c n) = n"
| "getattr_name v = None"

text \<open>The name of \<^verbatim>\<open>type(v)\<close> and its rendering by \<^verbatim>\<open>str.format\<close>.\<close>

fun type_name :: "pyval \<Rightarrow> string" where
  "type_name PNone = ''NoneType''"
| "type_name (PBool b) = ''bool''"
| "type_name (PInt i) = ''int''"
| "type_name (PStr s) = ''str''"
| "type_name (PList xs) = ''list''"
| "type_name (PDict kvs) = ''dict''"
| "type_name (PPath p) = ''pathlib.PosixPath''"
| "type_name (PObj c n) = c"

definition format_type :: "pyval \<Rightarrow> string" where
  "format_type v = ''<class '' @ [CHR 0x27] @ type_name v @ [CHR 0x27] @ ''>''"

section \<open>Exceptions, entities and the collaborators of the loader\<close>

text \<open>
  The enumerations \<^verbatim>\<open>ErrorTarget\<close>, \<^verbatim>\<open>ErrorCategory\<close> and \<^verbatim>\<open>ValidationErrorType\<close>
  of the module \<^verbatim>\<open>azure.ai.ml._ml_exceptions\<close>, which is not among the sources:
  \<open>COMPONENT\<close>, \<open>USER_ERROR\<close> and \<open>CANNOT_PARSE\<close> are the members that
  \<^verbatim>\<open>_try_load_yaml_dict\<close> names; any other member is given by its name. Whether
  \<^verbatim>\<open>ValidationErrorType\<close> has the member \<^verbatim>\<open>MISSING_VALUE\<close>, which only
  \<^verbatim>\<open>load_component\<close> names, is left to the environment below.
\<close>

datatype error_target = COMPONENT | OtherTarget string

datatype error_category = USER_ERROR | OtherCategory string

datatype validation_error_type = CANNOT_PARSE | OtherErrorType string

text \<open>The sixteen entity classes the module binds a load function to, and any other class.\<close>

datatype entity_family =
    Job | Workspace | Registry | Datastore | Code | Compute | Component | Model | Data
  | Environment | OnlineDeployment | BatchDeployment | OnlineEndpoint | BatchEndpoint
  | WorkspaceConnection | JobSchedule

datatype pycls = Base entity_family | Cls string

datatype schema = Schema string

type_synonym override = "(string \<times> pyval) list"

type_synonym kwargs = "(string \<times> pyval) list"

text \<open>
  The result of \<^verbatim>\<open>_ValidationResultBuilder.from_validation_error(e, relative_origin)\<close>:
  the messages of the raw error and the origin.
\<close>

datatype validation_result = ValidationResult pyval pyval

text \<open>
  Exceptions. \<open>ValidationException\<close> carries \<^verbatim>\<open>message\<close>, \<^verbatim>\<open>target\<close>,
  \<^verbatim>\<open>no_personal_data_message\<close>, \<^verbatim>\<open>error_category\<close> and \<^verbatim>\<open>error_type\<close>;
  \<open>ValidationError\<close> is marshmallow's, with its messages; \<open>SchemaValidationError\<close> is
  the typed exception of a failed validation result, with the result, the error target,
  the schema and the additional message; \<open>AttributeError\<close> is Python's, with the name
  of the attribute that is missing; \<open>OtherError\<close> is any other exception (an I/O error of
  the YAML loader, for instance).
\<close>

datatype exn =
    ValidationException string error_target string error_category validation_error_type
  | ValidationError pyval
  | SchemaValidationError validation_result error_target schema string
  | AttributeError string
  | OtherError string

fun is_ValidationError :: "exn \<Rightarrow> bool" where
  "is_ValidationError (ValidationError m) = True"
| "is_ValidationError e = False"

record entity =
  ent_cls :: pycls
  ent_data :: "(string \<times> pyval) list"
  ent_base_path :: pyval

text \<open>
  What a call does besides returning: the warnings it emits and the calls it makes to its
  collaborators, in order.
\<close>

datatype event =
    Warn string string
  | LoadYaml pyval
  | ResolveClsAndType pycls pyval "override list"
  | ClsLoad pycls pyval pyval "override list" kwargs
  | ComponentsGet pyval pyval pyval

fun is_Warn :: "event \<Rightarrow> bool" where
  "is_Warn (Warn m c) = True"
| "is_Warn ev = False"

text \<open>
  The collaborators that are not part of the module, as parameters:
  \<^verbatim>\<open>load_yaml\<close>, \<^verbatim>\<open>cls._resolve_cls_and_type\<close>, \<^verbatim>\<open>cls._load\<close>,
  \<^verbatim>\<open>issubclass(cls, SchemaValidatableMixin)\<close>, \<^verbatim>\<open>cls._get_validation_error_target\<close>,
  \<^verbatim>\<open>cls._create_schema_for_validation_with_base_path\<close>,
  \<^verbatim>\<open>client.components.get\<close>, and the lookup of a member of
  \<^verbatim>\<open>ValidationErrorType\<close> by its name, which is \<open>None\<close> where the enumeration has no
  such member and Python raises \<^verbatim>\<open>AttributeError\<close>. Each one that may raise returns a
  sum.
\<close>

record env =
  load_yaml :: "pyval \<Rightarrow> exn + pyval"
  resolve_cls_and_type :: "pycls \<Rightarrow> pyval \<Rightarrow> override list \<Rightarrow> exn + (pycls \<times> string option)"
  cls_load :: "pycls \<Rightarrow> pyval \<Rightarrow> pyval \<Rightarrow> override list \<Rightarrow> kwargs \<Rightarrow> exn + entity"
  is_SchemaValidatable :: "pycls \<Rightarrow> bool"
  get_validation_error_target :: "pycls \<Rightarrow> error_target"
  create_schema_for_validation_with_base_path :: "pycls \<Rightarrow> schema"
  components_get :: "pyval \<Rightarrow> pyval \<Rightarrow> pyval \<Rightarrow> exn + entity option"
  ValidationErrorType_getattr :: "string \<Rightarrow> validation_error_type option"

text \<open>
  Modelled from the spec: \<^verbatim>\<open>_ValidationResultBuilder.from_validation_error\<close> (module
  \<^verbatim>\<open>azure.ai.ml.entities._validation\<close>) is missing. By section 4.4 of the
  specification it builds a validation result from the raw error plus the origin.
\<close>

fun from_validation_error :: "exn \<Rightarrow> pyval \<Rightarrow> validation_result" where
  "from_validation_error (ValidationError messages) relative_origin =
     ValidationResult messages relative_origin"
| "from_validation_error e relative_origin = ValidationResult PNone relative_origin"

text \<open>
  Modelled from the spec: \<^verbatim>\<open>ValidationResult.try_raise\<close> (module
  \<^verbatim>\<open>azure.ai.ml.entities._validation\<close>) is missing. By section 4.4 of the
  specification it raises a typed exception carrying the error target, the schema
  description of the base path and the additional guidance text. Its result is a sum all
  the same, so that \<^verbatim>\<open>load_common\<close> keeps the path on which it returns.
\<close>

definition try_raise ::
  "validation_result \<Rightarrow> error_target \<Rightarrow> schema \<Rightarrow> bool \<Rightarrow> string \<Rightarrow> exn + validation_result"
where
  "try_raise validation_result error_target schema raise_mashmallow_error additional_message =
     Inl (SchemaValidationError validation_result error_target schema additional_message)"

section \<open>The load functions\<close>

definition path_deprecation_message :: string where
  "path_deprecation_message =
     ''the '' @ [CHR 0x27] @ ''path'' @ [CHR 0x27] @
     '' input for load functions is deprecated. Please use '' @
     [CHR 0x27] @ ''source'' @ [CHR 0x27] @ '' instead.''"

definition DEFAULT_RELATIVE_ORIGIN :: pyval where
  "DEFAULT_RELATIVE_ORIGIN = PStr ''./''"

text \<open>
  Lines 74 to 81 of \<^verbatim>\<open>load_common\<close>, and the same lines 413 to 420 of
  \<^verbatim>\<open>load_component\<close>: the effective source and the warnings emitted.
  \<^verbatim>\<open>
  if source is None:
      if args is not None and len(args) > 0:
          source = args[0]
      elif path is not None:
          source = path
          warnings.warn("the 'path' input ...", DeprecationWarning)
  \<close>
\<close>

definition resolve_source :: "pyval \<Rightarrow> pyval list option \<Rightarrow> pyval \<Rightarrow> pyval \<times> event list" where
  "resolve_source source args path =
     (if source = PNone then
        (case args of
           Some (a # as) \<Rightarrow> (a, [])
         | _ \<Rightarrow>
            (if path \<noteq> PNone then (path, [Warn path_deprecation_message ''DeprecationWarning''])
             else (source, [])))
      else (source, []))"

text \<open>
  Lines 83 to 90 of \<^verbatim>\<open>load_common\<close>.
  \<^verbatim>\<open>
  if relative_origin is None:
      if isinstance(source, (str, PathLike)):
          relative_origin = source
      else:
          try:
              relative_origin = source.name
          except AttributeError:
              relative_origin = _DEFAULT_RELATIVE_ORIGIN
  \<close>
\<close>

definition derive_relative_origin :: "pyval \<Rightarrow> pyval \<Rightarrow> pyval" where
  "derive_relative_origin relative_origin source =
     (if relative_origin = PNone then
        (if isinstance_str_or_PathLike source then source
         else (case getattr_name source of
                 Some n \<Rightarrow> n
               | None \<Rightarrow> DEFAULT_RELATIVE_ORIGIN))
      else relative_origin)"

definition empty_yaml_message :: string where
  "empty_yaml_message = ''Target yaml file is empty''"

definition not_dict_message :: "pyval \<Rightarrow> string" where
  "not_dict_message yaml_dict =
     ''Expect dict but get '' @ format_type yaml_dict @ '' after parsing yaml file''"

definition try_load_yaml_dict :: "env \<Rightarrow> pyval \<Rightarrow> exn + pyval" where
  "try_load_yaml_dict env source =
     (case load_yaml env source of
        Inl e \<Rightarrow> Inl e
      | Inr yaml_dict \<Rightarrow>
         (if yaml_dict = PNone then
            Inl (ValidationException empty_yaml_message COMPONENT empty_yaml_message
                   USER_ERROR CANNOT_PARSE)
          else if \<not> isinstance_dict yaml_dict then
            Inl (ValidationException (not_dict_message yaml_dict) COMPONENT
                   (not_dict_message yaml_dict) USER_ERROR CANNOT_PARSE)
          else Inr yaml_dict))"

definition load_common_raising_marshmallow_error ::
  "env \<Rightarrow> pycls \<Rightarrow> pyval \<Rightarrow> pyval \<Rightarrow> override list \<Rightarrow> kwargs \<Rightarrow> exn + entity"
where
  "load_common_raising_marshmallow_error env cls yaml_dict relative_origin params_override kwargs =
     cls_load env cls yaml_dict relative_origin params_override kwargs"

definition additional_message :: "string option \<Rightarrow> string" where
  "additional_message type_str =
     (case type_str of
        None \<Rightarrow> ''''
      | Some t \<Rightarrow>
         ''If you are trying to configure an entity that is not of type '' @ t @
         '', please specify the correct type in the '' @ [CHR 0x27] @ ''type'' @ [CHR 0x27] @
         '' property.'')"

text \<open>
  \<^verbatim>\<open>load_common\<close>. The result is the exception raised or the value returned (\<open>None\<close>
  when the function falls off its end, after a \<^verbatim>\<open>try_raise\<close> that returns), with the
  events of the call.
\<close>

definition load_common ::
  "env \<Rightarrow> pycls \<Rightarrow> pyval \<Rightarrow> pyval \<Rightarrow> pyval \<Rightarrow> pyval list option \<Rightarrow> override list option
     \<Rightarrow> kwargs \<Rightarrow> (exn + entity option) \<times> event list"
where
  "load_common env cls source path relative_origin args params_override kwargs =
     (let (source, warned) = resolve_source source args path;
          relative_origin = derive_relative_origin relative_origin source;
          params_override = (case params_override of None \<Rightarrow> [] | Some po \<Rightarrow> po);
          t1 = warned @ [LoadYaml source]
      in case try_load_yaml_dict env source of
           Inl e \<Rightarrow> (Inl e, t1)
         | Inr yaml_dict \<Rightarrow>
            (let t2 = t1 @ [ResolveClsAndType cls yaml_dict params_override]
             in case resolve_cls_and_type env cls yaml_dict params_override of
                  Inl e \<Rightarrow> (Inl e, t2)
                | Inr (cls, type_str) \<Rightarrow>
                   (let t3 = t2 @ [ClsLoad cls yaml_dict relative_origin params_override kwargs]
                    in case load_common_raising_marshmallow_error env cls yaml_dict
                              relative_origin params_override kwargs of
                         Inr ent \<Rightarrow> (Inr (Some ent), t3)
                       | Inl e \<Rightarrow>
                          (if is_ValidationError e then
                             (if is_SchemaValidatable env cls then
                                (case try_raise (from_validation_error e relative_origin)
                                        (get_validation_error_target env cls)
                                        (create_schema_for_validation_with_base_path env cls)
                                        True (additional_message type_str) of
                                   Inl e' \<Rightarrow> (Inl e', t3)
                                 | Inr r \<Rightarrow> (Inr None, t3))
                              else (Inl e, t3))
                           else (Inl e, t3)))))"

definition load_job where
  "load_job env args source relative_origin path params_override kwargs =
     load_common env (Base Job) source path relative_origin (Some args) params_override kwargs"

definition load_workspace where
  "load_workspace env args source relative_origin path params_override kwargs =
     load_common env (Base Workspace) source path relative_origin (Some args) params_override kwargs"

definition load_registry where
  "load_registry env args source relative_origin path params_override kwargs =
     load_common env (Base Registry) source path relative_origin (Some args) params_override kwargs"

definition load_datastore where
  "load_datastore env args source relative_origin path params_override kwargs =
     load_common env (Base Datastore) source path relative_origin (Some args) params_override kwargs"

definition load_code where
  "load_code env args source relative_origin path params_override kwargs =
     load_common env (Base Code) source path relative_origin (Some args) params_override kwargs"

definition load_compute where
  "load_compute env args source relative_origin path params_override kwargs =
     load_common env (Base Compute) source path relative_origin (Some args) params_override kwargs"

text \<open>\<^verbatim>\<open>kwargs.pop(key, None)\<close>: the value and the remaining keyword arguments.\<close>

definition kwargs_pop :: "string \<Rightarrow> kwargs \<Rightarrow> pyval \<times> kwargs" where
  "kwargs_pop key kwargs =
     ((case map_of kwargs key of None \<Rightarrow> PNone | Some v \<Rightarrow> v),
      filter (\<lambda>kv. fst kv \<noteq> key) kwargs)"

definition missing_value_message :: string where
  "missing_value_message = ''One of (client, name, version), (source) should be provided.''"

text \<open>
  \<^verbatim>\<open>load_component\<close>. In its last branch the arguments of \<^verbatim>\<open>ValidationException\<close>
  are evaluated before the exception is built: where \<^verbatim>\<open>ValidationErrorType\<close> has no
  member \<^verbatim>\<open>MISSING_VALUE\<close>, line 433 raises \<^verbatim>\<open>AttributeError\<close> instead.
\<close>

definition load_component ::
  "env \<Rightarrow> pyval list \<Rightarrow> pyval \<Rightarrow> pyval \<Rightarrow> pyval \<Rightarrow> override list option \<Rightarrow> kwargs
     \<Rightarrow> (exn + entity option) \<times> event list"
where
  "load_component env args source relative_origin path params_override kwargs =
     (let (client, kwargs) = kwargs_pop ''client'' kwargs;
          (name, kwargs) = kwargs_pop ''name'' kwargs;
          (version, kwargs) = kwargs_pop ''version'' kwargs;
          (source, warned) = resolve_source source (Some args) path
      in if truthy source then
           (let (r, t) = load_common env (Base Component) source path relative_origin (Some args)
                           params_override kwargs
            in (r, warned @ t))
         else if truthy client \<and> truthy name \<and> truthy version then
           (case components_get env client name version of
              Inl e \<Rightarrow> (Inl e, warned @ [ComponentsGet client name version])
            | Inr component_entity \<Rightarrow>
               (Inr component_entity, warned @ [ComponentsGet client name version]))
         else
           (case ValidationErrorType_getattr env ''MISSING_VALUE'' of
              None \<Rightarrow> (Inl (AttributeError ''MISSING_VALUE''), warned)
            | Some error_type \<Rightarrow>
               (Inl (ValidationException missing_value_message COMPONENT missing_value_message
                       USER_ERROR error_type),
                warned)))"

definition load_model where
  "load_model env args source relative_origin path params_override kwargs =
     load_common env (Base Model) source path relative_origin (Some args) params_override kwargs"

definition load_data where
  "load_data env args source relative_origin path params_override kwargs =
     load_common env (Base Data) source path relative_origin (Some args) params_override kwargs"

definition load_environment where
  "load_environment env args source relative_origin path params_override kwargs =
     load_common env (Base Environment) source path relative_origin (Some args) params_override kwargs"

definition load_online_deployment where
  "load_online_deployment env args source relative_origin path params_override kwargs =
     load_common env (Base OnlineDeployment) source path relative_origin (Some args)
       params_override kwargs"

definition load_batch_deployment where
  "load_batch_deployment env args source relative_origin path params_override kwargs =
     load_common env (Base BatchDeployment) source path relative_origin (Some args)
       params_override kwargs"

definition load_online_endpoint where
  "load_online_endpoint env args source relative_origin path params_override kwargs =
     load_common env (Base OnlineEndpoint) source path relative_origin (Some args)
       params_override kwargs"

definition load_batch_endpoint where
  "load_batch_endpoint env args source relative_origin path params_override kwargs =
     load_common env (Base BatchEndpoint) source path relative_origin (Some args)
       params_override kwargs"

definition load_workspace_connection where
  "load_workspace_connection env args source relative_origin path params_override kwargs =
     load_common env (Base WorkspaceConnection) source path relative_origin (Some args)
       params_override kwargs"

definition load_schedule where
  "load_schedule env args source relative_origin path params_override kwargs =
     load_common env (Base JobSchedule) source path relative_origin (Some args)
       params_override kwargs"

text \<open>The load function of each entity family.\<close>

fun load_F ::
  "entity_family \<Rightarrow> env \<Rightarrow> pyval list \<Rightarrow> pyval \<Rightarrow> pyval \<Rightarrow> pyval \<Rightarrow> override list option \<Rightarrow> kwargs
     \<Rightarrow> (exn + entity option) \<times> event list"
where
  "load_F Job = load_job"
| "load_F Workspace = load_workspace"
| "load_F Registry = load_registry"
| "load_F Datastore = load_datastore"
| "load_F Code = load_code"
| "load_F Compute = load_compute"
| "load_F Component = load_component"
| "load_F Model = load_model"
| "load_F Data = load_data"
| "load_F Environment = load_environment"
| "load_F OnlineDeployment = load_online_deployment"
| "load_F BatchDeployment = load_batch_deployment"
| "load_F OnlineEndpoint = load_online_endpoint"
| "load_F BatchEndpoint = load_batch_endpoint"
| "load_F WorkspaceConnection = load_workspace_connection"
| "load_F JobSchedule = load_schedule"

text \<open>\<^verbatim>\<open>kwargs.get(key)\<close>, to name the keyword arguments of a call.\<close>

definition kwargs_get :: "kwargs \<Rightarrow> string \<Rightarrow> pyval" where
  "kwargs_get kwargs key = (case map_of kwargs key of None \<Rightarrow> PNone | Some v \<Rightarrow> v)"

section \<open>Overrides\<close>

text \<open>
  Modelled from the spec: the application of \<^verbatim>\<open>params_override\<close>, done below
  \<^verbatim>\<open>cls._load\<close> by the entity classes and their schemas, is missing. By sections 3 and
  4.3 of the specification the override list is an ordered sequence of mappings from field
  paths to values, applied as field-path overwrites on top of the parsed values, in list
  order. \<open>dict_set\<close> overwrites one field path, \<open>apply_override\<close> applies one entry of
  the list and \<open>apply_params_override\<close> the whole list.
\<close>

fun dict_set :: "string \<Rightarrow> pyval \<Rightarrow> (string \<times> pyval) list \<Rightarrow> (string \<times> pyval) list" where
  "dict_set k v [] = [(k, v)]"
| "dict_set k v ((k', v') # kvs) =
     (if k' = k then (k, v) # kvs else (k', v') # dict_set k v kvs)"

definition apply_override :: "(string \<times> pyval) list \<Rightarrow> override \<Rightarrow> (string \<times> pyval) list" where
  "apply_override data entry = foldl (\<lambda>d kv. dict_set (fst kv) (snd kv) d) data entry"

definition apply_params_override ::
  "(string \<times> pyval) list \<Rightarrow> override list \<Rightarrow> (string \<times> pyval) list"
where
  "apply_params_override data params_override = foldl apply_override data params_override"

text \<open>The items of a dictionary.\<close>

fun dict_items :: "pyval \<Rightarrow> (string \<times> pyval) list" where
  "dict_items (PDict kvs) = kvs"
| "dict_items v = []"

text \<open>
  Modelled from the spec: \<^verbatim>\<open>cls._load\<close> of the entity classes is missing. By section
  4.3 of the specification it consumes the mapping, the origin and the override list, and
  constructs the entity from the mapping with the overrides applied. Schema validation is
  not modelled: construction succeeds.
\<close>

definition spec_load ::
  "pycls \<Rightarrow> pyval \<Rightarrow> pyval \<Rightarrow> override list \<Rightarrow> kwargs \<Rightarrow> exn + entity"
where
  "spec_load cls data yaml_path params_override kwargs =
     Inr \<lparr>ent_cls = cls,
          ent_data = apply_params_override (dict_items data) params_override,
          ent_base_path = yaml_path\<rparr>"

text \<open>The last value that an override list gives to a field path, if any.\<close>

definition last_override :: "override list \<Rightarrow> string \<Rightarrow> pyval option" where
  "last_override params_override k = map_of (rev (concat params_override)) k"

section \<open>A concrete environment\<close>

text \<open>
  A file system with a job document, an empty document and a document that is a list,
  where the file descriptor \<open>0\<close> (the standard input) carries the job document too; a
  type resolver that knows command jobs; a constructor that requires the field
  \<open>command\<close>; a registry with one component; and an enumeration
  \<^verbatim>\<open>ValidationErrorType\<close> with the members \<^verbatim>\<open>INVALID_VALUE\<close>,
  \<^verbatim>\<open>UNKNOWN_FIELD\<close>, \<^verbatim>\<open>MISSING_FIELD\<close>, \<^verbatim>\<open>FILE_OR_FOLDER_NOT_FOUND\<close>,
  \<^verbatim>\<open>CANNOT_SERIALIZE\<close>, \<^verbatim>\<open>CANNOT_PARSE\<close>, \<^verbatim>\<open>RESOURCE_NOT_FOUND\<close> and
  \<^verbatim>\<open>GENERIC\<close>, and no member \<^verbatim>\<open>MISSING_VALUE\<close>.
\<close>

definition job_yaml :: pyval where
  "job_yaml = PDict [(''type'', PStr ''command''), (''command'', PStr ''echo hello'')]"

definition bad_job_yaml :: pyval where
  "bad_job_yaml = PDict [(''type'', PStr ''command'')]"

definition remote_component :: entity where
  "remote_component =
     \<lparr>ent_cls = Cls ''CommandComponent'',
      ent_data = [(''name'', PStr ''x''), (''version'', PStr ''1'')],
      ent_base_path = PStr ''./''\<rparr>"

definition ml_client :: pyval where
  "ml_client = PObj ''azure.ai.ml.MLClient'' None"

definition example_load_yaml :: "pyval \<Rightarrow> exn + pyval" where
  "example_load_yaml source =
     (if source = PStr ''job.yml'' \<or> source = PPath ''job.yml'' \<or> source = PInt 0
         \<or> source = PObj ''_io.TextIOWrapper'' (Some (PStr ''/tmp/foo.yaml''))
         \<or> source = PObj ''_io.StringIO'' None then Inr job_yaml
      else if source = PStr ''bad_job.yml'' then Inr bad_job_yaml
      else if source = PStr ''empty.yml'' then Inr PNone
      else if source = PStr ''list.yml'' then Inr (PList [PStr ''a'', PStr ''b''])
      else Inl (OtherError ''No such file or directory''))"

definition example_cls_load ::
  "pycls \<Rightarrow> pyval \<Rightarrow> pyval \<Rightarrow> override list \<Rightarrow> kwargs \<Rightarrow> exn + entity"
where
  "example_cls_load cls data yaml_path params_override kwargs =
     (if map_of (dict_items data) ''command'' = None then
        Inl (ValidationError (PDict [(''command'', PStr ''Missing data for required field.'')]))
      else spec_load cls data yaml_path params_override kwargs)"

definition example_components_get :: "pyval \<Rightarrow> pyval \<Rightarrow> pyval \<Rightarrow> exn + entity option" where
  "example_components_get client name version =
     (if client = ml_client \<and> name = PStr ''x'' \<and> version = PStr ''1''
      then Inr (Some remote_component)
      else Inl (OtherError ''ResourceNotFoundError''))"

definition example_ValidationErrorType :: "string \<Rightarrow> validation_error_type option" where
  "example_ValidationErrorType member =
     (if member = ''CANNOT_PARSE'' then Some CANNOT_PARSE
      else if member \<in> set [''INVALID_VALUE'', ''UNKNOWN_FIELD'', ''MISSING_FIELD'',
                ''FILE_OR_FOLDER_NOT_FOUND'', ''CANNOT_SERIALIZE'', ''RESOURCE_NOT_FOUND'',
                ''GENERIC''] then Some (OtherErrorType member)
      else None)"

definition example_env :: env where
  "example_env =
     \<lparr>load_yaml = example_load_yaml,
      resolve_cls_and_type = (\<lambda>cls data params_override. Inr (Cls ''CommandJob'', Some ''command'')),
      cls_load = example_cls_load,
      is_SchemaValidatable = (\<lambda>cls. cls = Cls ''CommandJob''),
      get_validation_error_target = (\<lambda>cls. OtherTarget ''JOB''),
      create_schema_for_validation_with_base_path = (\<lambda>cls. Schema ''CommandJobSchema''),
      components_get = example_components_get,
      ValidationErrorType_getattr = example_ValidationErrorType\<rparr>"

section \<open>Auxiliary facts\<close>

lemma resolve_source_fixed:
  "resolve_source source args path = (s, w) \<Longrightarrow> resolve_source s None PNone = (s, [])"
  by (auto simp add: resolve_source_def split: if_splits option.splits list.splits)

lemma resolve_source_given:
  "source \<noteq> PNone \<Longrightarrow> resolve_source source args path = (source, [])"
  by (simp add: resolve_source_def)

lemma truthy_not_None: "truthy v \<Longrightarrow> v \<noteq> PNone"
  by (cases v) simp_all

lemma load_common_split:
  assumes "resolve_source source args path = (s, w)"
  shows "load_common env cls source path ro args po kw =
           (fst (load_common env cls s PNone ro None po kw),
            w @ snd (load_common env cls s PNone ro None po kw))"
proof -
  have r: "resolve_source s None PNone = (s, [])"
    using assms by (rule resolve_source_fixed)
  show ?thesis
    unfolding load_common_def assms r
    by (simp add: Let_def split: sum.split prod.split)
qed

lemma load_common_events:
  assumes "resolve_source s None PNone = (s, [])"
  shows "\<exists>t. snd (load_common env cls s PNone ro None po kw) = LoadYaml s # t \<and>
             (\<forall>m c. Warn m c \<notin> set t) \<and> (\<forall>c n v. ComponentsGet c n v \<notin> set t)"
  unfolding load_common_def assms
  by (simp add: Let_def split: sum.split prod.split)

lemma load_common_yaml_failure:
  assumes "resolve_source source args path = (s, w)"
    and "try_load_yaml_dict env s = Inl e"
  shows "load_common env cls source path ro args po kw = (Inl e, w @ [LoadYaml s])"
  by (simp add: load_common_def assms Let_def)

lemma load_common_loaded:
  assumes "resolve_source source args path = (s, w)"
    and "try_load_yaml_dict env s = Inr y"
    and "resolve_cls_and_type env cls y (case po of None \<Rightarrow> [] | Some l \<Rightarrow> l) = Inr (c, ts)"
  shows "load_common env cls source path ro args po kw =
     (let origin = derive_relative_origin ro s;
          l = (case po of None \<Rightarrow> [] | Some l \<Rightarrow> l);
          t = w @ [LoadYaml s, ResolveClsAndType cls y l, ClsLoad c y origin l kw]
      in case cls_load env c y origin l kw of
           Inr ent \<Rightarrow> (Inr (Some ent), t)
         | Inl e \<Rightarrow>
            (if is_ValidationError e \<and> is_SchemaValidatable env c then
               (Inl (SchemaValidationError (from_validation_error e origin)
                      (get_validation_error_target env c)
                      (create_schema_for_validation_with_base_path env c)
                      (additional_message ts)), t)
             else (Inl e, t)))"
  by (simp add: load_common_def assms Let_def load_common_raising_marshmallow_error_def
        try_raise_def split: sum.split)

lemma load_F_common:
  "F \<noteq> Component \<Longrightarrow>
     load_F F env args source ro path po kw =
       load_common env (Base F) source path ro (Some args) po kw"
  by (cases F)
     (simp_all add: load_job_def load_workspace_def load_registry_def load_datastore_def
        load_code_def load_compute_def load_model_def load_data_def load_environment_def
        load_online_deployment_def load_batch_deployment_def load_online_endpoint_def
        load_batch_endpoint_def load_workspace_connection_def load_schedule_def fun_eq_iff)

lemma map_of_filter_key:
  "map_of (filter (\<lambda>kv. P (fst kv)) kw) k = (if P k then map_of kw k else None)"
  by (induction kw) auto

lemma load_component_unfold:
  assumes "resolve_source source (Some args) path = (s, w)"
  shows "load_component env args source ro path po kw =
     (if truthy s then
        (fst (load_common env (Base Component) s path ro (Some args) po
               (filter (\<lambda>kv. fst kv \<notin> {''client'', ''name'', ''version''}) kw)),
         w @ snd (load_common env (Base Component) s path ro (Some args) po
               (filter (\<lambda>kv. fst kv \<notin> {''client'', ''name'', ''version''}) kw)))
      else if truthy (kwargs_get kw ''client'') \<and> truthy (kwargs_get kw ''name'')
                \<and> truthy (kwargs_get kw ''version'') then
        (components_get env (kwargs_get kw ''client'') (kwargs_get kw ''name'')
           (kwargs_get kw ''version''),
         w @ [ComponentsGet (kwargs_get kw ''client'') (kwargs_get kw ''name'')
                (kwargs_get kw ''version'')])
      else (case ValidationErrorType_getattr env ''MISSING_VALUE'' of
              None \<Rightarrow> (Inl (AttributeError ''MISSING_VALUE''), w)
            | Some error_type \<Rightarrow>
               (Inl (ValidationException missing_value_message COMPONENT missing_value_message
                       USER_ERROR error_type), w)))"
proof -
  define k1 where "k1 = filter (\<lambda>kv. fst kv \<noteq> ''client'') kw"
  define k2 where "k2 = filter (\<lambda>kv. fst kv \<noteq> ''name'') k1"
  define k3 where "k3 = filter (\<lambda>kv. fst kv \<noteq> ''version'') k2"
  have n: "map_of k1 ''name'' = map_of kw ''name''"
    unfolding k1_def by (simp add: map_of_filter_key [where P = "\<lambda>k. k \<noteq> ''client''"])
  have v1: "map_of k1 ''version'' = map_of kw ''version''"
    unfolding k1_def by (simp add: map_of_filter_key [where P = "\<lambda>k. k \<noteq> ''client''"])
  have v: "map_of k2 ''version'' = map_of kw ''version''"
    unfolding k2_def using v1
    by (simp add: map_of_filter_key [where P = "\<lambda>k. k \<noteq> ''name''"])
  have p1: "kwargs_pop ''client'' kw = (kwargs_get kw ''client'', k1)"
    by (simp add: kwargs_pop_def kwargs_get_def k1_def)
  have p2: "kwargs_pop ''name'' k1 = (kwargs_get kw ''name'', k2)"
    by (simp add: kwargs_pop_def kwargs_get_def k2_def n)
  have p3: "kwargs_pop ''version'' k2 = (kwargs_get kw ''version'', k3)"
    by (simp add: kwargs_pop_def kwargs_get_def k3_def v)
  have f: "k3 = filter (\<lambda>kv. fst kv \<notin> {''client'', ''name'', ''version''}) kw"
    unfolding k3_def k2_def k1_def by (induction kw) auto
  show ?thesis
    unfolding load_component_def p1 p2 p3 prod.case Let_def assms f [symmetric]
    by (simp split: prod.split sum.split option.split)
qed

lemma resolve_source_warns:
  "snd (resolve_source source args path) =
     (if source = PNone \<and> (args = None \<or> args = Some []) \<and> path \<noteq> PNone
      then [Warn path_deprecation_message ''DeprecationWarning''] else [])"
  by (auto simp add: resolve_source_def split: option.splits list.splits)


lemma try_load_yaml_dict_empty:
  "load_yaml env s = Inr PNone \<Longrightarrow>
   try_load_yaml_dict env s =
     Inl (ValidationException ''Target yaml file is empty'' COMPONENT
            ''Target yaml file is empty'' USER_ERROR CANNOT_PARSE)"
  by (simp add: try_load_yaml_dict_def empty_yaml_message_def)

lemma try_load_yaml_dict_not_dict:
  "load_yaml env s = Inr y \<Longrightarrow> y \<noteq> PNone \<Longrightarrow> \<not> isinstance_dict y \<Longrightarrow>
   try_load_yaml_dict env s =
     Inl (ValidationException
            (''Expect dict but get <class '' @ [CHR 0x27] @ type_name y @ [CHR 0x27] @
             ''> after parsing yaml file'')
            COMPONENT
            (''Expect dict but get <class '' @ [CHR 0x27] @ type_name y @ [CHR 0x27] @
             ''> after parsing yaml file'')
            USER_ERROR CANNOT_PARSE)"
  by (simp add: try_load_yaml_dict_def not_dict_message_def format_type_def)

lemma resolve_source_absent:
  "args = [] \<or> (\<exists>as. args = PNone # as) \<Longrightarrow>
   resolve_source PNone (Some args) PNone = (PNone, [])"
  by (auto simp add: resolve_source_def)

lemma map_of_dict_set:
  "map_of (dict_set k v d) k' = (if k' = k then Some v else map_of d k')"
  by (induction d) auto

lemma map_of_apply_override:
  "map_of (apply_override d e) k =
     (case map_of (rev e) k of Some v \<Rightarrow> Some v | None \<Rightarrow> map_of d k)"
proof (induction e arbitrary: d)
  case Nil
  then show ?case by (simp add: apply_override_def)
next
  case (Cons x e)
  have step: "apply_override d (x # e) = apply_override (dict_set (fst x) (snd x) d) e"
    by (simp add: apply_override_def)
  show ?case
    unfolding step Cons.IH
    by (cases x) (auto simp add: map_of_dict_set map_add_def split: option.split)
qed

lemma map_of_apply_params_override:
  "map_of (apply_params_override d po) k =
     (case last_override po k of Some v \<Rightarrow> Some v | None \<Rightarrow> map_of d k)"
proof (induction po arbitrary: d)
  case Nil
  then show ?case by (simp add: apply_params_override_def last_override_def)
next
  case (Cons e po)
  have step: "apply_params_override d (e # po) = apply_params_override (apply_override d e) po"
    by (simp add: apply_params_override_def)
  show ?case
    unfolding step Cons.IH
    by (simp add: last_override_def map_of_apply_override map_add_def split: option.split)
qed


section \<open>Source resolution\<close>



section \<open>YAML materialization\<close>

text \<open>
  Claim C2. Let \<open>s\<close> be the effective source of a call of \<^verbatim>\<open>load_common\<close>. If the YAML
  loader yields \<open>None\<close> for \<open>s\<close>, the call raises a \<open>ValidationException\<close> of type
  \<open>CANNOT_PARSE\<close> with the message of the empty document; if it yields a value that is
  neither \<open>None\<close> nor a dictionary, the call raises a \<open>ValidationException\<close> of type
  \<open>CANNOT_PARSE\<close> whose message contains the type of that value. In both cases the
  events of the call are the warnings of the source resolution and the call of the YAML
  loader: neither the type resolver nor the constructor of the entity is called.
\<close>

theorem yaml_materialization_errors:
  assumes "resolve_source source args path = (s, w)"
  shows "(load_yaml env s = Inr PNone \<longrightarrow>
            load_common env cls source path ro args po kw =
              (Inl (ValidationException ''Target yaml file is empty'' COMPONENT
                      ''Target yaml file is empty'' USER_ERROR CANNOT_PARSE),
               w @ [LoadYaml s]))
       \<and> (\<forall>y. load_yaml env s = Inr y \<and> y \<noteq> PNone \<and> \<not> isinstance_dict y \<longrightarrow>
            load_common env cls source path ro args po kw =
              (Inl (ValidationException
                      (''Expect dict but get <class '' @ [CHR 0x27] @ type_name y @ [CHR 0x27] @
                       ''> after parsing yaml file'')
                      COMPONENT
                      (''Expect dict but get <class '' @ [CHR 0x27] @ type_name y @ [CHR 0x27] @
                       ''> after parsing yaml file'')
                      USER_ERROR CANNOT_PARSE),
               w @ [LoadYaml s]))
       \<and> filter is_Warn w = w"
proof (intro conjI impI allI)
  assume "load_yaml env s = Inr PNone"
  then show "load_common env cls source path ro args po kw =
              (Inl (ValidationException ''Target yaml file is empty'' COMPONENT
                      ''Target yaml file is empty'' USER_ERROR CANNOT_PARSE),
               w @ [LoadYaml s])"
    by (simp only: load_common_yaml_failure [OF assms try_load_yaml_dict_empty])
next
  fix y
  assume "load_yaml env s = Inr y \<and> y \<noteq> PNone \<and> \<not> isinstance_dict y"
  then have "try_load_yaml_dict env s =
     Inl (ValidationException
            (''Expect dict but get <class '' @ [CHR 0x27] @ type_name y @ [CHR 0x27] @
             ''> after parsing yaml file'')
            COMPONENT
            (''Expect dict but get <class '' @ [CHR 0x27] @ type_name y @ [CHR 0x27] @
             ''> after parsing yaml file'')
            USER_ERROR CANNOT_PARSE)"
    by (intro try_load_yaml_dict_not_dict) simp_all
  then show "load_common env cls source path ro args po kw =
              (Inl (ValidationException
                      (''Expect dict but get <class '' @ [CHR 0x27] @ type_name y @ [CHR 0x27] @
                       ''> after parsing yaml file'')
                      COMPONENT
                      (''Expect dict but get <class '' @ [CHR 0x27] @ type_name y @ [CHR 0x27] @
                       ''> after parsing yaml file'')
                      USER_ERROR CANNOT_PARSE),
               w @ [LoadYaml s])"
    by (simp only: load_common_yaml_failure [OF assms])
next
  show "filter is_Warn w = w"
    using resolve_source_warns [of source args path] assms by (simp split: if_splits)
qed

theorem yaml_materialization_errors_witness:
  "load_common example_env (Base Job) (PStr ''empty.yml'') PNone PNone (Some []) None [] =
     (Inl (ValidationException ''Target yaml file is empty'' COMPONENT
             ''Target yaml file is empty'' USER_ERROR CANNOT_PARSE),
      [LoadYaml (PStr ''empty.yml'')])
   \<and> load_common example_env (Base Job) (PStr ''list.yml'') PNone PNone (Some []) None [] =
     (Inl (ValidationException ''Expect dict but get <class 'list'> after parsing yaml file''
             COMPONENT ''Expect dict but get <class 'list'> after parsing yaml file''
             USER_ERROR CANNOT_PARSE),
      [LoadYaml (PStr ''list.yml'')])"
proof -
  have r1: "resolve_source (PStr ''empty.yml'') (Some []) PNone = (PStr ''empty.yml'', [])"
    by (simp add: resolve_source_def)
  have r2: "resolve_source (PStr ''list.yml'') (Some []) PNone = (PStr ''list.yml'', [])"
    by (simp add: resolve_source_def)
  have y1: "load_yaml example_env (PStr ''empty.yml'') = Inr PNone"
    by (simp add: example_env_def example_load_yaml_def)
  have y2: "load_yaml example_env (PStr ''list.yml'') = Inr (PList [PStr ''a'', PStr ''b''])"
    by (simp add: example_env_def example_load_yaml_def)
  show ?thesis
    using yaml_materialization_errors [OF r1, of example_env "Base Job" PNone None "[]"]
          yaml_materialization_errors [OF r2, of example_env "Base Job" PNone None "[]"]
          y1 y2
    by simp
qed

section \<open>The modes of \<^verbatim>\<open>load_component\<close>\<close>

text \<open>
  Claim C3. A call of \<^verbatim>\<open>load_component\<close> with no \<open>source\<close>, no \<open>path\<close>, no first
  positional argument (or \<open>None\<close> as the first one) and with \<open>client\<close>, \<open>name\<close> or
  \<open>version\<close> missing has no events, neither the YAML loader nor
  \<^verbatim>\<open>client.components.get\<close> being called, and ends in the last branch. That branch
  raises the \<open>ValidationException\<close> of the missing value only where
  \<^verbatim>\<open>ValidationErrorType\<close> has a member \<^verbatim>\<open>MISSING_VALUE\<close>; where it has none, the
  call raises \<^verbatim>\<open>AttributeError\<close> instead, as the call without any argument does in
  the concrete environment.
\<close>

theorem load_component_missing_value:
  assumes "args = [] \<or> (\<exists>as. args = PNone # as)"
    and "kwargs_get kw ''client'' = PNone \<or> kwargs_get kw ''name'' = PNone
           \<or> kwargs_get kw ''version'' = PNone"
  shows "load_component env args PNone ro PNone po kw =
           (case ValidationErrorType_getattr env ''MISSING_VALUE'' of
              None \<Rightarrow> (Inl (AttributeError ''MISSING_VALUE''), [])
            | Some error_type \<Rightarrow>
               (Inl (ValidationException
                       ''One of (client, name, version), (source) should be provided.''
                       COMPONENT
                       ''One of (client, name, version), (source) should be provided.''
                       USER_ERROR error_type),
                []))"
  using assms(2)
  by (auto simp add: load_component_unfold [OF resolve_source_absent [OF assms(1)]]
        missing_value_message_def split: option.split)

theorem load_component_missing_value_witness:
  "load_component example_env [] PNone PNone PNone None [] =
     (Inl (AttributeError ''MISSING_VALUE''), [])"
proof -
  have a: "([]::pyval list) = [] \<or> (\<exists>as. [] = PNone # as)"
    by simp
  have k: "kwargs_get [] ''client'' = PNone \<or> kwargs_get [] ''name'' = PNone
         \<or> kwargs_get [] ''version'' = PNone"
    by (simp add: kwargs_get_def)
  have m: "ValidationErrorType_getattr example_env ''MISSING_VALUE'' = None"
    by (simp add: example_env_def example_ValidationErrorType_def)
  show ?thesis
    using load_component_missing_value [OF a k, of example_env PNone None] m by simp
qed

text \<open>
  Claim C4, as stated, fails: with no source, a client, the name \<open>x\<close> and the empty string
  as version, all three of the remote triple are supplied, and \<^verbatim>\<open>load_component\<close> ends
  in its last branch and raises, without calling \<^verbatim>\<open>client.components.get\<close>, because
  the test \<^verbatim>\<open>client and name and version\<close> is one of truth values.
\<close>

theorem load_component_remote_fetch_counterexample:
  "load_component example_env [] PNone PNone PNone None
     [(''client'', ml_client), (''name'', PStr ''x''), (''version'', PStr '''')] =
     (Inl (AttributeError ''MISSING_VALUE''), [])
   \<and> fst (load_component example_env [] PNone PNone PNone None
        [(''client'', ml_client), (''name'', PStr ''x''), (''version'', PStr '''')]) \<noteq>
      components_get example_env ml_client (PStr ''x'') (PStr '''')"
  by (simp add: load_component_def kwargs_pop_def resolve_source_def ml_client_def
        example_env_def example_components_get_def example_ValidationErrorType_def)

text \<open>
  Claim C4, amended. A call of \<^verbatim>\<open>load_component\<close> with no \<open>source\<close>, no \<open>path\<close>, no first
  positional argument (or \<open>None\<close> as the first one) and with \<open>client\<close>, \<open>name\<close> and
  \<open>version\<close> all true (not \<open>None\<close>, not empty, not zero) returns exactly what
  \<^verbatim>\<open>client.components.get(name, version)\<close> returns or raises, and that call is its only
  event: no YAML is loaded and no entity is constructed locally.
\<close>

theorem load_component_remote_fetch:
  assumes "args = [] \<or> (\<exists>as. args = PNone # as)"
    and "truthy (kwargs_get kw ''client'')"
    and "truthy (kwargs_get kw ''name'')"
    and "truthy (kwargs_get kw ''version'')"
  shows "load_component env args PNone ro PNone po kw =
           (components_get env (kwargs_get kw ''client'') (kwargs_get kw ''name'')
              (kwargs_get kw ''version''),
            [ComponentsGet (kwargs_get kw ''client'') (kwargs_get kw ''name'')
               (kwargs_get kw ''version'')])"
  using assms(2-4)
  by (simp add: load_component_unfold [OF resolve_source_absent [OF assms(1)]])

theorem load_component_remote_fetch_witness:
  "load_component example_env [] PNone PNone PNone None
     [(''client'', ml_client), (''name'', PStr ''x''), (''version'', PStr ''1'')] =
   (Inr (Some remote_component), [ComponentsGet ml_client (PStr ''x'') (PStr ''1'')])"
proof -
  let ?kw = "[(''client'', ml_client), (''name'', PStr ''x''), (''version'', PStr ''1'')]"
  have a: "([]::pyval list) = [] \<or> (\<exists>as. [] = PNone # as)"
    by simp
  have c: "kwargs_get ?kw ''client'' = ml_client"
    and n: "kwargs_get ?kw ''name'' = PStr ''x''"
    and v: "kwargs_get ?kw ''version'' = PStr ''1''"
    by (simp_all add: kwargs_get_def)
  have tc: "truthy (kwargs_get ?kw ''client'')"
    unfolding c by (simp add: ml_client_def)
  have tn: "truthy (kwargs_get ?kw ''name'')"
    unfolding n by simp
  have tv: "truthy (kwargs_get ?kw ''version'')"
    unfolding v by simp
  show ?thesis
    using load_component_remote_fetch [OF a tc tn tv, of example_env PNone None]
    unfolding c n v
    by (simp add: example_env_def example_components_get_def)
qed

section \<open>The legacy parameter\<close>

text \<open>
  Claim C5. For every entity family \<open>F\<close> and every path \<open>p\<close> (a value other than \<open>None\<close>),
  \<^verbatim>\<open>load_F(path=p)\<close> returns or raises what \<^verbatim>\<open>load_F(source=p)\<close> does, and its events are
  those of \<^verbatim>\<open>load_F(source=p)\<close> after one deprecation warning.
\<close>

theorem legacy_path_equivalence:
  assumes "p \<noteq> PNone"
  shows "load_F F env [] PNone ro p po kw =
           (fst (load_F F env [] p ro PNone po kw),
            Warn path_deprecation_message ''DeprecationWarning'' #
            snd (load_F F env [] p ro PNone po kw))"
proof -
  have legacy: "resolve_source PNone (Some []) p =
                  (p, [Warn path_deprecation_message ''DeprecationWarning''])"
    using assms by (simp add: resolve_source_def)
  have current: "resolve_source p (Some []) PNone = (p, [])"
    using assms by (simp add: resolve_source_def)
  have given: "resolve_source p (Some []) p = (p, [])"
    using assms by (simp add: resolve_source_def)
  have common: "load_common env c PNone p ro (Some []) po k =
                  (fst (load_common env c p PNone ro (Some []) po k),
                   Warn path_deprecation_message ''DeprecationWarning'' #
                   snd (load_common env c p PNone ro (Some []) po k))" for c k
    by (simp add: load_common_split [OF legacy] load_common_split [OF current])
  have same: "load_common env c p p ro (Some []) po k =
                load_common env c p PNone ro (Some []) po k" for c k
    by (simp add: load_common_split [OF given] load_common_split [OF current])
  show ?thesis
  proof (cases "F = Component")
    case True
    show ?thesis
      unfolding True load_F.simps
      by (simp add: load_component_unfold [OF legacy] load_component_unfold [OF current] same
            split: option.split)
  next
    case False
    show ?thesis
      unfolding load_F_common [OF False] by (rule common)
  qed
qed

theorem legacy_path_equivalence_witness:
  "load_F Job example_env [] PNone PNone (PStr ''job.yml'') None [] =
     (fst (load_F Job example_env [] (PStr ''job.yml'') PNone PNone None []),
      Warn path_deprecation_message ''DeprecationWarning'' #
      snd (load_F Job example_env [] (PStr ''job.yml'') PNone PNone None []))
   \<and> load_F Component example_env [] PNone PNone (PStr ''job.yml'') None [] =
     (fst (load_F Component example_env [] (PStr ''job.yml'') PNone PNone None []),
      Warn path_deprecation_message ''DeprecationWarning'' #
      snd (load_F Component example_env [] (PStr ''job.yml'') PNone PNone None []))"
proof -
  have p: "PStr ''job.yml'' \<noteq> PNone"
    by simp
  show ?thesis
    using legacy_path_equivalence [OF p, of Job example_env PNone None "[]"]
          legacy_path_equivalence [OF p, of Component example_env PNone None "[]"]
    by blast
qed

section \<open>The relative origin\<close>

text \<open>
  Claim C6. In a call of \<^verbatim>\<open>load_common\<close> without \<open>relative_origin\<close> that reaches the
  constructor of the entity, the origin passed to the constructor is the effective source
  when that is a string or a \<open>PathLike\<close>; otherwise the \<open>name\<close> attribute of the source
  when it has one; otherwise the default marker \<^verbatim>\<open>"./"\<close>.
\<close>

theorem relative_origin_derivation:
  assumes "resolve_source source args path = (s, w)"
    and "try_load_yaml_dict env s = Inr y"
    and "resolve_cls_and_type env cls y (case po of None \<Rightarrow> [] | Some l \<Rightarrow> l) = Inr (c, ts)"
  shows "\<exists>origin.
           snd (load_common env cls source path PNone args po kw) =
             w @ [LoadYaml s,
                  ResolveClsAndType cls y (case po of None \<Rightarrow> [] | Some l \<Rightarrow> l),
                  ClsLoad c y origin (case po of None \<Rightarrow> [] | Some l \<Rightarrow> l) kw]
         \<and> (isinstance_str_or_PathLike s \<longrightarrow> origin = s)
         \<and> (\<forall>n. \<not> isinstance_str_or_PathLike s \<and> getattr_name s = Some n \<longrightarrow> origin = n)
         \<and> (\<not> isinstance_str_or_PathLike s \<and> getattr_name s = None \<longrightarrow> origin = PStr ''./'')"
proof (intro exI conjI)
  show "snd (load_common env cls source path PNone args po kw) =
             w @ [LoadYaml s,
                  ResolveClsAndType cls y (case po of None \<Rightarrow> [] | Some l \<Rightarrow> l),
                  ClsLoad c y (derive_relative_origin PNone s)
                    (case po of None \<Rightarrow> [] | Some l \<Rightarrow> l) kw]"
    by (simp add: load_common_loaded [OF assms] Let_def split: sum.split)
qed (simp_all add: derive_relative_origin_def DEFAULT_RELATIVE_ORIGIN_def)

theorem relative_origin_derivation_witness:
  "snd (load_common example_env (Base Job)
          (PObj ''_io.TextIOWrapper'' (Some (PStr ''/tmp/foo.yaml''))) PNone PNone (Some [])
          None []) =
     [LoadYaml (PObj ''_io.TextIOWrapper'' (Some (PStr ''/tmp/foo.yaml''))),
      ResolveClsAndType (Base Job) job_yaml [],
      ClsLoad (Cls ''CommandJob'') job_yaml (PStr ''/tmp/foo.yaml'') [] []]
   \<and> snd (load_common example_env (Base Job) (PObj ''_io.StringIO'' None) PNone PNone (Some [])
          None []) =
     [LoadYaml (PObj ''_io.StringIO'' None),
      ResolveClsAndType (Base Job) job_yaml [],
      ClsLoad (Cls ''CommandJob'') job_yaml (PStr ''./'') [] []]
   \<and> snd (load_common example_env (Base Job) (PPath ''job.yml'') PNone PNone (Some [])
          None []) =
     [LoadYaml (PPath ''job.yml''),
      ResolveClsAndType (Base Job) job_yaml [],
      ClsLoad (Cls ''CommandJob'') job_yaml (PPath ''job.yml'') [] []]"
proof -
  have r: "resolve_source s (Some []) PNone = (s, [])" for s
    by (simp add: resolve_source_def)
  have y1: "try_load_yaml_dict example_env
              (PObj ''_io.TextIOWrapper'' (Some (PStr ''/tmp/foo.yaml''))) = Inr job_yaml"
    and y2: "try_load_yaml_dict example_env (PObj ''_io.StringIO'' None) = Inr job_yaml"
    and y3: "try_load_yaml_dict example_env (PPath ''job.yml'') = Inr job_yaml"
    by (simp_all add: try_load_yaml_dict_def example_env_def example_load_yaml_def job_yaml_def)
  have c: "resolve_cls_and_type example_env (Base Job) job_yaml
             (case None of None \<Rightarrow> [] | Some l \<Rightarrow> l) = Inr (Cls ''CommandJob'', Some ''command'')"
    by (simp add: example_env_def)
  show ?thesis
    using relative_origin_derivation [OF r y1 c, of "[]"]
          relative_origin_derivation [OF r y2 c, of "[]"]
          relative_origin_derivation [OF r y3 c, of "[]"]
    by simp
qed

section \<open>Translation of validation errors\<close>

text \<open>
  Claim C7. When the constructor of the resolved class raises marshmallow's
  \<open>ValidationError\<close>: if the resolved class is a subclass of
  \<^verbatim>\<open>SchemaValidatableMixin\<close>, \<^verbatim>\<open>load_common\<close> raises the typed exception that carries
  the validation result built from the raw error and the origin, the error target of the
  class, its schema for the base path, and an additional message that is empty when no
  type string was resolved and otherwise names the resolved type string; if not, the raw
  \<open>ValidationError\<close> is raised unchanged.
\<close>

theorem validation_error_translation:
  assumes "resolve_source source args path = (s, w)"
    and "try_load_yaml_dict env s = Inr y"
    and "resolve_cls_and_type env cls y (case po of None \<Rightarrow> [] | Some l \<Rightarrow> l) = Inr (c, ts)"
    and "cls_load env c y (derive_relative_origin ro s) (case po of None \<Rightarrow> [] | Some l \<Rightarrow> l) kw =
           Inl (ValidationError m)"
  shows "fst (load_common env cls source path ro args po kw) =
           (if is_SchemaValidatable env c then
              Inl (SchemaValidationError
                     (ValidationResult m (derive_relative_origin ro s))
                     (get_validation_error_target env c)
                     (create_schema_for_validation_with_base_path env c)
                     (case ts of
                        None \<Rightarrow> ''''
                      | Some t \<Rightarrow>
                         ''If you are trying to configure an entity that is not of type '' @ t @
                         '', please specify the correct type in the 'type' property.''))
            else Inl (ValidationError m))"
  by (simp add: load_common_loaded [OF assms(1-3)] assms(4) Let_def additional_message_def
        split: option.split)

theorem validation_error_translation_witness:
  "fst (load_common example_env (Base Job) (PStr ''bad_job.yml'') PNone PNone (Some []) None []) =
     Inl (SchemaValidationError
            (ValidationResult (PDict [(''command'', PStr ''Missing data for required field.'')])
               (PStr ''bad_job.yml''))
            (OtherTarget ''JOB'') (Schema ''CommandJobSchema'')
            (''If you are trying to configure an entity that is not of type command'' @
             '', please specify the correct type in the 'type' property.''))"
proof -
  have r: "resolve_source (PStr ''bad_job.yml'') (Some []) PNone = (PStr ''bad_job.yml'', [])"
    by (simp add: resolve_source_def)
  have y: "try_load_yaml_dict example_env (PStr ''bad_job.yml'') = Inr bad_job_yaml"
    by (simp add: try_load_yaml_dict_def example_env_def example_load_yaml_def bad_job_yaml_def)
  have c: "resolve_cls_and_type example_env (Base Job) bad_job_yaml
             (case None of None \<Rightarrow> [] | Some l \<Rightarrow> l) = Inr (Cls ''CommandJob'', Some ''command'')"
    by (simp add: example_env_def)
  have l: "cls_load example_env (Cls ''CommandJob'') bad_job_yaml
             (derive_relative_origin PNone (PStr ''bad_job.yml''))
             (case None of None \<Rightarrow> [] | Some l \<Rightarrow> l) [] =
           Inl (ValidationError (PDict [(''command'', PStr ''Missing data for required field.'')]))"
    by (simp add: example_env_def example_cls_load_def bad_job_yaml_def)
  show ?thesis
    using validation_error_translation [OF r y c l]
    by (simp add: example_env_def derive_relative_origin_def)
qed

section \<open>Precedence of the local source in \<^verbatim>\<open>load_component\<close>\<close>

text \<open>
  Claim C8. Let the effective source \<open>s\<close> of a call of \<^verbatim>\<open>load_component\<close> be true, be
  it given as \<open>source\<close>, as first positional argument or as \<open>path\<close>. Whatever the remote
  triple is, the call is the call of \<^verbatim>\<open>load_common\<close> for \<open>Component\<close> on \<open>s\<close> with
  \<open>client\<close>, \<open>name\<close> and \<open>version\<close> removed from the keyword arguments: after the
  warnings of the source resolution its first event is the loading of the YAML source
  \<open>s\<close>, and \<^verbatim>\<open>client.components.get\<close> is never called. When the YAML loader yields a
  dictionary for \<open>s\<close>, the type resolver a class for it and the constructor of that class
  an entity, the call returns that entity, and its events are the loading, the resolution
  and the construction.
\<close>

theorem load_component_local_wins:
  assumes "resolve_source source (Some args) path = (s, w)"
    and "truthy s"
  shows "load_component env args source ro path po kw =
           (fst (load_common env (Base Component) s PNone ro None po
                   (filter (\<lambda>kv. fst kv \<notin> {''client'', ''name'', ''version''}) kw)),
            w @ snd (load_common env (Base Component) s PNone ro None po
                   (filter (\<lambda>kv. fst kv \<notin> {''client'', ''name'', ''version''}) kw)))
       \<and> (\<exists>t. snd (load_component env args source ro path po kw) = w @ LoadYaml s # t
              \<and> (\<forall>c n v. ComponentsGet c n v \<notin> set w \<union> set t))
       \<and> (\<forall>y c ts ent.
             load_yaml env s = Inr y \<and> isinstance_dict y
             \<and> resolve_cls_and_type env (Base Component) y
                   (case po of None \<Rightarrow> [] | Some l \<Rightarrow> l) = Inr (c, ts)
             \<and> cls_load env c y (derive_relative_origin ro s)
                   (case po of None \<Rightarrow> [] | Some l \<Rightarrow> l)
                   (filter (\<lambda>kv. fst kv \<notin> {''client'', ''name'', ''version''}) kw) = Inr ent
             \<longrightarrow>
             load_component env args source ro path po kw =
               (Inr (Some ent),
                w @ [LoadYaml s,
                     ResolveClsAndType (Base Component) y (case po of None \<Rightarrow> [] | Some l \<Rightarrow> l),
                     ClsLoad c y (derive_relative_origin ro s)
                       (case po of None \<Rightarrow> [] | Some l \<Rightarrow> l)
                       (filter (\<lambda>kv. fst kv \<notin> {''client'', ''name'', ''version''}) kw)]))"
proof -
  let ?kw = "filter (\<lambda>kv. fst kv \<notin> {''client'', ''name'', ''version''}) kw"
  let ?l = "case po of None \<Rightarrow> [] | Some l \<Rightarrow> l"
  have s: "s \<noteq> PNone"
    using assms(2) by (rule truthy_not_None)
  have r: "resolve_source s (Some args) path = (s, [])"
    using s by (rule resolve_source_given)
  have r0: "resolve_source s None PNone = (s, [])"
    using s by (rule resolve_source_given)
  have inner: "load_common env (Base Component) s path ro (Some args) po ?kw =
                 load_common env (Base Component) s PNone ro None po ?kw"
    by (simp add: load_common_split [OF r])
  have eq: "load_component env args source ro path po kw =
           (fst (load_common env (Base Component) s PNone ro None po ?kw),
            w @ snd (load_common env (Base Component) s PNone ro None po ?kw))"
    unfolding load_component_unfold [OF assms(1)] inner using assms(2) by simp
  obtain t where t: "snd (load_common env (Base Component) s PNone ro None po ?kw) =
                       LoadYaml s # t"
    and g: "\<forall>c n v. ComponentsGet c n v \<notin> set t"
    using load_common_events [OF r0] by blast
  have ww: "\<forall>c n v. ComponentsGet c n v \<notin> set w"
    using resolve_source_warns [of source "Some args" path] assms(1)
    by (auto split: if_splits)
  have events: "\<exists>t. snd (load_component env args source ro path po kw) = w @ LoadYaml s # t
              \<and> (\<forall>c n v. ComponentsGet c n v \<notin> set w \<union> set t)"
    unfolding eq using t g ww by simp
  have built: "load_component env args source ro path po kw =
               (Inr (Some ent),
                w @ [LoadYaml s, ResolveClsAndType (Base Component) y ?l,
                     ClsLoad c y (derive_relative_origin ro s) ?l ?kw])"
    if "load_yaml env s = Inr y \<and> isinstance_dict y
        \<and> resolve_cls_and_type env (Base Component) y ?l = Inr (c, ts)
        \<and> cls_load env c y (derive_relative_origin ro s) ?l ?kw = Inr ent"
    for y c ts ent
  proof -
    have y: "try_load_yaml_dict env s = Inr y"
      using that by (cases y) (simp_all add: try_load_yaml_dict_def)
    have c: "resolve_cls_and_type env (Base Component) y ?l = Inr (c, ts)"
      using that by simp
    have l: "cls_load env c y (derive_relative_origin ro s) ?l ?kw = Inr ent"
      using that by simp
    have "load_common env (Base Component) s PNone ro None po ?kw =
            (Inr (Some ent),
             [] @ [LoadYaml s, ResolveClsAndType (Base Component) y ?l,
                   ClsLoad c y (derive_relative_origin ro s) ?l ?kw])"
      unfolding load_common_loaded [OF r0 y c] Let_def l by simp
    then show ?thesis
      unfolding eq by simp
  qed
  show ?thesis
    using eq events built by blast
qed

theorem load_component_local_wins_witness:
  "load_component example_env [] (PStr ''job.yml'') PNone PNone None
     [(''client'', ml_client), (''name'', PStr ''x''), (''version'', PStr ''1'')] =
     (Inr (Some \<lparr>ent_cls = Cls ''CommandJob'',
                  ent_data = [(''type'', PStr ''command''), (''command'', PStr ''echo hello'')],
                  ent_base_path = PStr ''job.yml''\<rparr>),
      [LoadYaml (PStr ''job.yml''),
       ResolveClsAndType (Base Component) job_yaml [],
       ClsLoad (Cls ''CommandJob'') job_yaml (PStr ''job.yml'') [] []])
   \<and> load_component example_env [] PNone PNone (PStr ''job.yml'') None
     [(''client'', ml_client), (''name'', PStr ''x''), (''version'', PStr ''1'')] =
     (Inr (Some \<lparr>ent_cls = Cls ''CommandJob'',
                  ent_data = [(''type'', PStr ''command''), (''command'', PStr ''echo hello'')],
                  ent_base_path = PStr ''job.yml''\<rparr>),
      [Warn path_deprecation_message ''DeprecationWarning'',
       LoadYaml (PStr ''job.yml''),
       ResolveClsAndType (Base Component) job_yaml [],
       ClsLoad (Cls ''CommandJob'') job_yaml (PStr ''job.yml'') [] []])"
proof -
  let ?kw = "[(''client'', ml_client), (''name'', PStr ''x''), (''version'', PStr ''1'')]"
  let ?ent = "\<lparr>ent_cls = Cls ''CommandJob'',
               ent_data = [(''type'', PStr ''command''), (''command'', PStr ''echo hello'')],
               ent_base_path = PStr ''job.yml''\<rparr>"
  have r1: "resolve_source (PStr ''job.yml'') (Some []) PNone = (PStr ''job.yml'', [])"
    by (simp add: resolve_source_def)
  have r2: "resolve_source PNone (Some []) (PStr ''job.yml'') =
              (PStr ''job.yml'', [Warn path_deprecation_message ''DeprecationWarning''])"
    by (simp add: resolve_source_def)
  have t: "truthy (PStr ''job.yml'')"
    by simp
  have k: "filter (\<lambda>kv. fst kv \<notin> {''client'', ''name'', ''version''}) ?kw = []"
    by simp
  have o: "derive_relative_origin PNone (PStr ''job.yml'') = PStr ''job.yml''"
    by (simp add: derive_relative_origin_def)
  have h: "load_yaml example_env (PStr ''job.yml'') = Inr job_yaml \<and> isinstance_dict job_yaml
     \<and> resolve_cls_and_type example_env (Base Component) job_yaml
           (case None of None \<Rightarrow> [] | Some l \<Rightarrow> l) = Inr (Cls ''CommandJob'', Some ''command'')
     \<and> cls_load example_env (Cls ''CommandJob'') job_yaml
           (derive_relative_origin PNone (PStr ''job.yml''))
           (case None of None \<Rightarrow> [] | Some l \<Rightarrow> l)
           (filter (\<lambda>kv. fst kv \<notin> {''client'', ''name'', ''version''}) ?kw) = Inr ?ent"
    unfolding k o
    by (simp add: example_env_def example_load_yaml_def example_cls_load_def job_yaml_def
          spec_load_def apply_params_override_def)
  have a: "load_component example_env [] (PStr ''job.yml'') PNone PNone None ?kw =
             (Inr (Some ?ent),
              [] @ [LoadYaml (PStr ''job.yml''),
                    ResolveClsAndType (Base Component) job_yaml
                      (case None of None \<Rightarrow> [] | Some l \<Rightarrow> l),
                    ClsLoad (Cls ''CommandJob'') job_yaml
                      (derive_relative_origin PNone (PStr ''job.yml''))
                      (case None of None \<Rightarrow> [] | Some l \<Rightarrow> l)
                      (filter (\<lambda>kv. fst kv \<notin> {''client'', ''name'', ''version''}) ?kw)])"
    using load_component_local_wins [OF r1 t, of example_env PNone None ?kw] h by blast
  have b: "load_component example_env [] PNone PNone (PStr ''job.yml'') None ?kw =
             (Inr (Some ?ent),
              [Warn path_deprecation_message ''DeprecationWarning''] @
                   [LoadYaml (PStr ''job.yml''),
                    ResolveClsAndType (Base Component) job_yaml
                      (case None of None \<Rightarrow> [] | Some l \<Rightarrow> l),
                    ClsLoad (Cls ''CommandJob'') job_yaml
                      (derive_relative_origin PNone (PStr ''job.yml''))
                      (case None of None \<Rightarrow> [] | Some l \<Rightarrow> l)
                      (filter (\<lambda>kv. fst kv \<notin> {''client'', ''name'', ''version''}) ?kw)])"
    using load_component_local_wins [OF r2 t, of example_env PNone None ?kw] h by blast
  show ?thesis
    using a b unfolding k o by simp
qed

section \<open>Precedence of the overrides\<close>

text \<open>
  Claim C9. \<^verbatim>\<open>load_common\<close> hands \<open>params_override\<close> to the constructor unchanged and in
  order; with the constructor of the specification, every field of the constructed entity
  has the value of the last override entry for it in list order, if there is one, and the
  value of the parsed document otherwise. So the overrides
  \<^verbatim>\<open>[{"name": "a"}, {"name": "b"}]\<close> give an entity whose \<open>name\<close> is \<open>b\<close>.
\<close>

theorem params_override_last_wins:
  assumes "resolve_source source args path = (s, w)"
    and "load_yaml env s = Inr (PDict d)"
    and "resolve_cls_and_type env cls (PDict d) po = Inr (c, ts)"
    and "cls_load env = spec_load"
  shows "\<exists>ent. fst (load_common env cls source path ro args (Some po) kw) = Inr (Some ent)
           \<and> (\<forall>k. map_of (ent_data ent) k =
                  (case last_override po k of Some v \<Rightarrow> Some v | None \<Rightarrow> map_of d k))
           \<and> (po = [[(''name'', PStr ''a'')], [(''name'', PStr ''b'')]] \<longrightarrow>
                map_of (ent_data ent) ''name'' = Some (PStr ''b''))"
proof -
  have y: "try_load_yaml_dict env s = Inr (PDict d)"
    by (simp add: try_load_yaml_dict_def assms(2))
  have c: "resolve_cls_and_type env cls (PDict d)
             (case Some po of None \<Rightarrow> [] | Some l \<Rightarrow> l) = Inr (c, ts)"
    by (simp add: assms(3))
  have "fst (load_common env cls source path ro args (Some po) kw) =
          Inr (Some \<lparr>ent_cls = c, ent_data = apply_params_override d po,
                     ent_base_path = derive_relative_origin ro s\<rparr>)"
    by (simp add: load_common_loaded [OF assms(1) y c] assms(4) spec_load_def Let_def)
  moreover have "map_of (apply_params_override d po) k =
                   (case last_override po k of Some v \<Rightarrow> Some v | None \<Rightarrow> map_of d k)" for k
    by (rule map_of_apply_params_override)
  moreover have "po = [[(''name'', PStr ''a'')], [(''name'', PStr ''b'')]] \<longrightarrow>
                   map_of (apply_params_override d po) ''name'' = Some (PStr ''b'')"
    by (simp add: map_of_apply_params_override last_override_def)
  ultimately show ?thesis
    by simp
qed

theorem params_override_last_wins_witness:
  "\<exists>ent. fst (load_common (example_env\<lparr>cls_load := spec_load\<rparr>) (Base Job) (PStr ''job.yml'')
               PNone PNone (Some [])
               (Some [[(''name'', PStr ''a'')], [(''name'', PStr ''b'')]]) []) = Inr (Some ent)
         \<and> map_of (ent_data ent) ''name'' = Some (PStr ''b'')
         \<and> map_of (ent_data ent) ''command'' = Some (PStr ''echo hello'')"
proof -
  let ?d = "[(''type'', PStr ''command''), (''command'', PStr ''echo hello'')]"
  let ?po = "[[(''name'', PStr ''a'')], [(''name'', PStr ''b'')]]"
  let ?env = "example_env\<lparr>cls_load := spec_load\<rparr>"
  have r: "resolve_source (PStr ''job.yml'') (Some []) PNone = (PStr ''job.yml'', [])"
    by (simp add: resolve_source_def)
  have y: "load_yaml ?env (PStr ''job.yml'') = Inr (PDict ?d)"
    by (simp add: example_env_def example_load_yaml_def job_yaml_def)
  have c: "resolve_cls_and_type ?env (Base Job) (PDict ?d) ?po =
             Inr (Cls ''CommandJob'', Some ''command'')"
    by (simp add: example_env_def)
  have l: "cls_load ?env = spec_load"
    by simp
  have n: "map_of ?d ''name'' = None" and lo: "last_override ?po ''command'' = None"
    by (simp_all add: last_override_def)
  obtain ent where e: "fst (load_common ?env (Base Job) (PStr ''job.yml'') PNone PNone (Some [])
                         (Some ?po) []) = Inr (Some ent)"
    and a: "\<forall>k. map_of (ent_data ent) k =
                  (case last_override ?po k of Some v \<Rightarrow> Some v | None \<Rightarrow> map_of ?d k)"
    and b: "?po = ?po \<longrightarrow> map_of (ent_data ent) ''name'' = Some (PStr ''b'')"
    using params_override_last_wins [OF r y c l, of PNone "[]"] by blast
  have "map_of (ent_data ent) ''command'' = Some (PStr ''echo hello'')"
    using a lo by simp
  with e b show ?thesis
    by blast
qed

section \<open>A false source that is not \<open>None\<close>\<close>




end
